theory Spec2Isabelle
  imports Complex_Main "HOL-Library.AList" "HOL-Library.Multiset"
begin

section \<open>Values and configuration\<close>

text \<open>
  The analyser and the command-line driver pass Python dictionaries, lists, strings and
  numbers around. A decoded JSON document and an analysis result are both plain
  dictionaries in the source, so one datatype of values serves for both. A dictionary is
  an association list in insertion order with distinct keys. A number is an exact
  rational: the binary rounding of Python's floats and the non-finite floats are not
  represented. A \<open>char\<close> stands for one character of a Python string.
\<close>

datatype json =
    JNull
  | JBool bool
  | JNum rat
  | JStr string
  | JArr "json list"
  | JObj "(string \<times> json) list"

type_synonym dict = "(string \<times> json) list"

datatype error = ValueError | JSONDecodeError | TypeError

text \<open>\<open>d.get(k)\<close>, \<open>d[k] = v\<close> and \<open>k in d\<close> on a dictionary.\<close>

definition dict_get :: "dict \<Rightarrow> string \<Rightarrow> json option" where
  "dict_get d k = map_of d k"

definition dict_set :: "dict \<Rightarrow> string \<Rightarrow> json \<Rightarrow> dict" where
  "dict_set d k v = AList.update k v d"

definition has_key :: "dict \<Rightarrow> string \<Rightarrow> bool" where
  "has_key d k = (dict_get d k \<noteq> None)"

text \<open>
  \<open>config.py\<close>: the class \<open>Config\<close> reads its values from the environment, so they are
  a parameter of every function below; \<open>default_config\<close> holds the defaults of the file.
\<close>

record config =
  SUPPORTED_EXTENSIONS :: "string list"
  MAX_FILE_SIZE :: int
  MAX_FILES_PER_ANALYSIS :: int

definition default_config :: config where
  "default_config =
     \<lparr> SUPPORTED_EXTENSIONS =
         [''.py'', ''.js'', ''.ts'', ''.java'', ''.cpp'', ''.c'', ''.go'', ''.rb'',
          ''.php'', ''.html'', ''.css''],
       MAX_FILE_SIZE = 50000,
       MAX_FILES_PER_ANALYSIS = 20 \<rparr>"

section \<open>Python string and list primitives\<close>

text \<open>\<open>s.find(c)\<close> and \<open>s.rfind(c)\<close> for a one-character \<open>c\<close>: an index, or \<open>-1\<close>.\<close>

fun str_find :: "char \<Rightarrow> string \<Rightarrow> int" where
  "str_find c [] = -1"
| "str_find c (x # xs) =
     (if x = c then 0
      else (let r = str_find c xs in if r = -1 then -1 else r + 1))"

definition str_rfind :: "char \<Rightarrow> string \<Rightarrow> int" where
  "str_rfind c s =
     (let r = str_find c (rev s) in if r = -1 then -1 else int (length s) - 1 - r)"

text \<open>
  A slice bound as Python normalises it: a negative bound counts from the end, and the
  result is clipped to the length of the sequence.
\<close>

definition slice_bound :: "nat \<Rightarrow> int \<Rightarrow> nat" where
  "slice_bound n i = (if i < 0 then nat (int n + i) else min n (nat i))"

text \<open>\<open>xs[a:b]\<close> and \<open>xs[:b]\<close>.\<close>

definition slice :: "int \<Rightarrow> int \<Rightarrow> 'a list \<Rightarrow> 'a list" where
  "slice a b xs =
     (let lo = slice_bound (length xs) a; hi = slice_bound (length xs) b
      in take (hi - lo) (drop lo xs))"

definition slice_to :: "int \<Rightarrow> 'a list \<Rightarrow> 'a list" where
  "slice_to b xs = take (slice_bound (length xs) b) xs"

text \<open>\<open>name.endswith(ext)\<close> and \<open>any(name.endswith(ext) for ext in exts)\<close>.\<close>

definition endswith :: "string \<Rightarrow> string \<Rightarrow> bool" where
  "endswith s ext = (length ext \<le> length s \<and> drop (length s - length ext) s = ext)"

definition supported :: "config \<Rightarrow> string \<Rightarrow> bool" where
  "supported cfg name = list_ex (endswith name) (SUPPORTED_EXTENSIONS cfg)"

section \<open>llm\_analyzer.py: one file\<close>

text \<open>
  The texts of the two notes and of the error marker are Korean in the source. Each is
  written here with its non-ASCII words replaced by an English gloss; no property below
  depends on their wording.
\<close>

definition parse_failed_note :: string where
  "parse_failed_note = ''LLM response parsing failed''"

definition analysis_failed_note :: string where
  "analysis_failed_note = ''analysis failed''"

definition analysis_failed_error :: string where
  "analysis_failed_error = ''LLM analysis failed''"

text \<open>
  \<open>_parse_json_response\<close>. \<open>json.loads\<close> belongs to the Python standard library, so the
  decoder is the parameter \<open>loads\<close>. The text handed to it starts at a \<open>{\<close> or is
  empty, so what it returns, when it returns, is a dictionary.
\<close>

definition parse_json_response :: "(string \<Rightarrow> error + dict) \<Rightarrow> string \<Rightarrow> error + dict" where
  "parse_json_response loads response =
     (let start_idx = str_find (CHR ''{'') response;
          end_idx = str_rfind (CHR ''}'') response
      in if start_idx \<noteq> -1 \<and> end_idx \<noteq> -1
         then loads (slice start_idx (end_idx + 1) response)
         else Inl ValueError)"

definition create_fallback_result :: "string \<Rightarrow> dict" where
  "create_fallback_result response =
     [(''overall_score'', JNum 5),
      (''issues'', JArr []),
      (''improvements'', JArr [JStr parse_failed_note]),
      (''positive_points'', JArr []),
      (''raw_response'', JStr (slice_to 500 response))]"

definition create_empty_result :: dict where
  "create_empty_result =
     [(''overall_score'', JNum 0),
      (''issues'', JArr []),
      (''improvements'', JArr [JStr analysis_failed_note]),
      (''positive_points'', JArr []),
      (''error'', JStr analysis_failed_error)]"

text \<open>
  The tail of \<open>analyze_code\<close>, from the answer of \<open>_call_ollama\<close> on: \<open>None\<close> when the
  service failed, the response text otherwise. \<open>if response:\<close> is false for \<open>None\<close> and
  for the empty text. Every exception of the parser is caught.
\<close>

definition analyze_response :: "(string \<Rightarrow> error + dict) \<Rightarrow> string option \<Rightarrow> dict" where
  "analyze_response loads response =
     (case response of
        None \<Rightarrow> create_empty_result
      | Some r \<Rightarrow>
          if r \<noteq> [] then
            (case parse_json_response loads r of
               Inr result \<Rightarrow> result
             | Inl e \<Rightarrow> create_fallback_result r)
          else create_empty_result)"


text \<open>
  \<open>_detect_language\<close>: the first extension of the table, in the order it is written,
  that the path ends with.
\<close>

definition extension_map :: "(string \<times> string) list" where
  "extension_map =
     [(''.py'', ''python''), (''.js'', ''javascript''), (''.ts'', ''typescript''),
      (''.java'', ''java''), (''.cpp'', ''cpp''), (''.c'', ''c''), (''.go'', ''go''),
      (''.rb'', ''ruby''), (''.php'', ''php''), (''.html'', ''html''), (''.css'', ''css'')]"

definition detect_language :: "string \<Rightarrow> string" where
  "detect_language file_path =
     (case List.find (\<lambda>(ext, lang). endswith file_path ext) extension_map of
        Some (ext, lang) \<Rightarrow> lang
      | None \<Rightarrow> ''text'')"

text \<open>
  The prompt is a fixed template around the language label, the path and the code, so it
  is kept as these three. \<open>_call_ollama\<close> answers a prompt with the response text, or
  with \<open>None\<close> when the request raised or the status was not 200.
\<close>

record prompt =
  language :: string
  file_path :: string
  code :: string

definition analyze_code ::
  "(prompt \<Rightarrow> string option) \<Rightarrow> (string \<Rightarrow> error + dict) \<Rightarrow> string \<Rightarrow> string \<Rightarrow> string \<Rightarrow> dict"
where
  "analyze_code call_ollama loads code_text path_text lang =
     (let lang' = (if lang = [] then detect_language path_text else lang);
          response = call_ollama \<lparr> language = lang', file_path = path_text, code = code_text \<rparr>
      in analyze_response loads response)"

section \<open>llm\_analyzer.py: the batch\<close>

text \<open>
  A file record as the three modes of \<open>main.py\<close> build it: the path, the content, and
  the numeric entries that depend on the mode (\<open>size\<close>, or \<open>changes\<close>, \<open>additions\<close>
  and \<open>deletions\<close>), which the analyser never reads.
\<close>

record file_info =
  path :: string
  content :: string
  meta :: "(string \<times> int) list"

text \<open>
  The service may answer the same prompt differently each time, so within one batch it
  is a function of the number of calls made before and of the prompt.
\<close>

type_synonym service = "nat \<Rightarrow> prompt \<Rightarrow> string option"

text \<open>
  \<open>total_score += v\<close>: a number is added, \<open>True\<close> and \<open>False\<close> count as 1 and 0, and
  any other value raises \<open>TypeError\<close>.
\<close>

fun add_score :: "rat \<Rightarrow> json \<Rightarrow> error + rat" where
  "add_score t (JNum x) = Inr (t + x)"
| "add_score t (JBool b) = Inr (t + (if b then 1 else 0))"
| "add_score t v = Inl TypeError"

text \<open>\<open>len(v)\<close>.\<close>

fun py_len :: "json \<Rightarrow> error + nat" where
  "py_len (JArr xs) = Inr (length xs)"
| "py_len (JStr s) = Inr (length s)"
| "py_len (JObj d) = Inr (length d)"
| "py_len v = Inl TypeError"

text \<open>The first two statements of the loop body: analyse, then store the path.\<close>

definition analyze_file :: "(prompt \<Rightarrow> string option) \<Rightarrow> (string \<Rightarrow> error + dict) \<Rightarrow> file_info \<Rightarrow> dict" where
  "analyze_file call_ollama loads file =
     dict_set (analyze_code call_ollama loads (content file) (path file) [])
       ''file_path'' (JStr (path file))"

text \<open>\<open>result.get('overall_score', 5.0)\<close> and \<open>r.get('issues', [])\<close>.\<close>

definition score_or_default :: "dict \<Rightarrow> json" where
  "score_or_default result =
     (case dict_get result ''overall_score'' of None \<Rightarrow> JNum 5 | Some v \<Rightarrow> v)"

definition issues_or_default :: "dict \<Rightarrow> json" where
  "issues_or_default r = (case dict_get r ''issues'' of None \<Rightarrow> JArr [] | Some v \<Rightarrow> v)"

text \<open>
  The loop of \<open>analyze_multiple_files\<close> over the files still to do, with the results and
  the running total so far. A record whose content is empty is passed over.
\<close>

fun analyze_loop ::
  "service \<Rightarrow> (string \<Rightarrow> error + dict) \<Rightarrow> file_info list \<Rightarrow> dict list \<Rightarrow> rat
     \<Rightarrow> error + (dict list \<times> rat)"
where
  "analyze_loop ollama loads [] results total_score = Inr (results, total_score)"
| "analyze_loop ollama loads (file # rest) results total_score =
     (if content file \<noteq> [] then
        (let result = analyze_file (ollama (length results)) loads file
         in case add_score total_score (score_or_default result) of
              Inl e \<Rightarrow> Inl e
            | Inr t \<Rightarrow> analyze_loop ollama loads rest (results @ [result]) t)
      else analyze_loop ollama loads rest results total_score)"

text \<open>\<open>sum(len(r.get('issues', [])) for r in results)\<close>, from the left.\<close>

fun sum_issues :: "dict list \<Rightarrow> nat \<Rightarrow> error + nat" where
  "sum_issues [] acc = Inr acc"
| "sum_issues (r # rs) acc =
     (case py_len (issues_or_default r) of
        Inl e \<Rightarrow> Inl e
      | Inr n \<Rightarrow> sum_issues rs (acc + n))"

text \<open>
  \<open>round(x, 1)\<close>: to the nearest tenth, a tie going to the even neighbour. On exact
  rationals a tie is a value such as \<open>0.25\<close>.
\<close>

definition round1 :: "rat \<Rightarrow> rat" where
  "round1 x =
     (let y = 10 * x; f = \<lfloor>y\<rfloor>; d = y - of_int f
      in of_int (if d < 1 / 2 then f
                 else if 1 / 2 < d then f + 1
                 else if even f then f else f + 1) / 10)"

text \<open>
  The report. The elapsed time and the time stamp of the summary come from the clock and
  are left out.
\<close>

record summary =
  total_files :: nat
  average_score :: rat
  total_issues :: nat

record report =
  summary :: summary
  files :: "dict list"

definition analyze_multiple_files ::
  "config \<Rightarrow> service \<Rightarrow> (string \<Rightarrow> error + dict) \<Rightarrow> file_info list \<Rightarrow> error + report"
where
  "analyze_multiple_files cfg ollama loads file_list =
     (case analyze_loop ollama loads (slice_to (MAX_FILES_PER_ANALYSIS cfg) file_list) [] 0 of
        Inl e \<Rightarrow> Inl e
      | Inr (results, total_score) \<Rightarrow>
          (let avg_score =
                 (if results \<noteq> [] then total_score / of_nat (length results) else 0)
           in case sum_issues results 0 of
                Inl e \<Rightarrow> Inl e
              | Inr n \<Rightarrow>
                  Inr \<lparr> summary =
                          \<lparr> total_files = length results,
                            average_score = round1 avg_score,
                            total_issues = n \<rparr>,
                        files = results \<rparr>))"

section \<open>github\_client.py: walking the remote tree\<close>

text \<open>
  An entry of a directory listing of the hosting service. A directory entry carries the
  listing that \<open>get_repo_contents\<close> returns for its path, \<open>None\<close> when that request
  fails; an entry of any other type is kept as \<open>OtherItem\<close>.
\<close>

datatype item =
    FileItem string string int string
  | DirItem string "item list option"
  | OtherItem string

record remote_file =
  rf_name :: string
  rf_path :: string
  rf_size :: int
  rf_download_url :: string

text \<open>
  \<open>_recursive_get_files\<close> on the listing of the current path, and its loop body on one
  entry; the files are appended to \<open>all_files\<close> in the order they are met. An absent or
  empty listing ends the call.
\<close>

fun recursive_get_files :: "config \<Rightarrow> item list option \<Rightarrow> remote_file list"
and visit_item :: "config \<Rightarrow> item \<Rightarrow> remote_file list"
where
  "recursive_get_files cfg None = []"
| "recursive_get_files cfg (Some contents) = concat (map (visit_item cfg) contents)"
| "visit_item cfg (FileItem n p sz url) =
     (if supported cfg n
      then [\<lparr> rf_name = n, rf_path = p, rf_size = sz, rf_download_url = url \<rparr>]
      else [])"
| "visit_item cfg (DirItem p listing) = recursive_get_files cfg listing"
| "visit_item cfg (OtherItem t) = []"

definition get_all_files :: "config \<Rightarrow> item list option \<Rightarrow> remote_file list" where
  "get_all_files cfg root_listing = recursive_get_files cfg root_listing"

section \<open>main.py: the three modes\<close>

subsection \<open>A repository\<close>

text \<open>
  The size filter, the sort and the cut of \<open>analyze_repository\<close>. \<open>max_files\<close> is
  \<open>None\<close> when the option was not given; \<open>if max_files:\<close> is also false for 0.
  \<open>list.sort\<close> is stable, as \<open>sort_key\<close> is.
\<close>

definition repository_valid_files :: "config \<Rightarrow> int option \<Rightarrow> remote_file list \<Rightarrow> remote_file list" where
  "repository_valid_files cfg max_files all_files =
     (let valid_files =
            sort_key rf_size (filter (\<lambda>f. rf_size f \<le> MAX_FILE_SIZE cfg) all_files)
      in case max_files of
           None \<Rightarrow> slice_to (MAX_FILES_PER_ANALYSIS cfg) valid_files
         | Some m \<Rightarrow>
             if m \<noteq> 0 then slice_to m valid_files
             else slice_to (MAX_FILES_PER_ANALYSIS cfg) valid_files)"

text \<open>
  The download loop: a file whose content is absent or empty gets no record.
  \<open>get_file_content\<close> is the answer of the hosting service for a path.
\<close>

fun download :: "(string \<Rightarrow> string option) \<Rightarrow> remote_file list \<Rightarrow> file_info list" where
  "download get_file_content [] = []"
| "download get_file_content (f # fs) =
     (case get_file_content (rf_path f) of
        None \<Rightarrow> download get_file_content fs
      | Some c \<Rightarrow>
          if c \<noteq> [] then
            \<lparr> path = rf_path f, content = c, meta = [(''size'', rf_size f)] \<rparr>
              # download get_file_content fs
          else download get_file_content fs)"

text \<open>
  \<open>analyze_repository\<close>; the empty dictionary it returns when there is nothing to
  analyse is \<open>None\<close>. \<open>repo_info\<close> tells whether the repository was found.
\<close>

definition analyze_repository ::
  "config \<Rightarrow> bool \<Rightarrow> item list option \<Rightarrow> (string \<Rightarrow> string option) \<Rightarrow> service
     \<Rightarrow> (string \<Rightarrow> error + dict) \<Rightarrow> int option \<Rightarrow> error + report option"
where
  "analyze_repository cfg repo_info root_listing get_file_content ollama loads max_files =
     (if \<not> repo_info then Inr None
      else
        (let all_files = get_all_files cfg root_listing
         in if all_files = [] then Inr None
            else
              (let files_with_content =
                     download get_file_content (repository_valid_files cfg max_files all_files)
               in if files_with_content \<noteq> []
                  then map_sum id Some (analyze_multiple_files cfg ollama loads files_with_content)
                  else Inr None)))"

subsection \<open>A pull request\<close>

text \<open>An entry of the changed-file list; an absent \<open>filename\<close> reads as the empty text.\<close>

record pr_file =
  status :: string
  filename :: string
  changes :: int
  additions :: int
  deletions :: int

fun pr_files_with_content :: "config \<Rightarrow> (string \<Rightarrow> string option) \<Rightarrow> pr_file list \<Rightarrow> file_info list" where
  "pr_files_with_content cfg get_file_content [] = []"
| "pr_files_with_content cfg get_file_content (e # es) =
     (if status e = ''removed'' then pr_files_with_content cfg get_file_content es
      else if \<not> supported cfg (filename e) then pr_files_with_content cfg get_file_content es
      else
        (case get_file_content (filename e) of
           None \<Rightarrow> pr_files_with_content cfg get_file_content es
         | Some c \<Rightarrow>
             if c \<noteq> [] then
               \<lparr> path = filename e, content = c,
                 meta = [(''changes'', changes e), (''additions'', additions e),
                         (''deletions'', deletions e)] \<rparr>
                 # pr_files_with_content cfg get_file_content es
             else pr_files_with_content cfg get_file_content es))"

text \<open>
  \<open>analyze_pull_request\<close>. \<open>pr_info\<close> tells whether the pull request was found;
  \<open>pr_files\<close> is \<open>None\<close> when the request for the changed files failed.
\<close>

definition analyze_pull_request ::
  "config \<Rightarrow> bool \<Rightarrow> pr_file list option \<Rightarrow> (string \<Rightarrow> string option) \<Rightarrow> service
     \<Rightarrow> (string \<Rightarrow> error + dict) \<Rightarrow> error + report option"
where
  "analyze_pull_request cfg pr_info pr_files get_file_content ollama loads =
     (if \<not> pr_info then Inr None
      else
        (case pr_files of
           None \<Rightarrow> Inr None
         | Some es \<Rightarrow>
             if es = [] then Inr None
             else
               (let files_with_content = pr_files_with_content cfg get_file_content es
                in if files_with_content \<noteq> []
                   then map_sum id Some (analyze_multiple_files cfg ollama loads files_with_content)
                   else Inr None)))"

subsection \<open>A local directory\<close>

text \<open>
  A directory as \<open>os.walk\<close> reports it: its files, then its subdirectories by name. A
  file has a name, the size \<open>os.path.getsize\<close> gives, and the text that reading it
  gives, \<open>None\<close> when opening or reading raises.
\<close>

record fs_file =
  fname :: string
  fsize :: int
  ftext :: "string option"

datatype dir = Dir "fs_file list" "(string \<times> dir) list"

definition excluded_dirs :: "string list" where
  "excluded_dirs = [''.git'', ''__pycache__'', ''node_modules'', ''venv'', ''.vscode'']"

definition join_path :: "string \<Rightarrow> string \<Rightarrow> string" where
  "join_path base n = (if base = [] then n else base @ ''/'' @ n)"

text \<open>
  The walk that fills \<open>all_file_paths\<close>. A path is kept relative to the project
  directory, as \<open>os.path.relpath\<close> later makes it, together with the file it names.
\<close>

fun walk :: "config \<Rightarrow> string \<Rightarrow> dir \<Rightarrow> (string \<times> fs_file) list" where
  "walk cfg base (Dir fs dirs) =
     map (\<lambda>f. (join_path base (fname f), f))
       (filter (\<lambda>f. supported cfg (fname f) \<and> fsize f \<le> MAX_FILE_SIZE cfg) fs)
     @ concat (map (\<lambda>(d, sub). walk cfg (join_path base d) sub)
         (filter (\<lambda>(d, sub). d \<notin> set excluded_dirs) dirs))"

definition local_file_paths :: "config \<Rightarrow> dir \<Rightarrow> (string \<times> fs_file) list" where
  "local_file_paths cfg project = slice_to (MAX_FILES_PER_ANALYSIS cfg) (walk cfg [] project)"

text \<open>The reading loop: a file that cannot be read gets no record, an empty one does.\<close>

fun read_files :: "(string \<times> fs_file) list \<Rightarrow> file_info list" where
  "read_files [] = []"
| "read_files ((relative_path, f) # rest) =
     (case ftext f of
        None \<Rightarrow> read_files rest
      | Some c \<Rightarrow>
          \<lparr> path = relative_path, content = c, meta = [(''size'', fsize f)] \<rparr> # read_files rest)"

text \<open>
  \<open>analyze_local_project\<close>. \<open>project\<close> is \<open>None\<close> when the path does not exist;
  \<open>go_on\<close> is false when the security check found something and the user declined.
\<close>

definition analyze_local_project ::
  "config \<Rightarrow> dir option \<Rightarrow> bool \<Rightarrow> service \<Rightarrow> (string \<Rightarrow> error + dict) \<Rightarrow> error + report option"
where
  "analyze_local_project cfg project go_on ollama loads =
     (case project of
        None \<Rightarrow> Inr None
      | Some d \<Rightarrow>
          if \<not> go_on then Inr None
          else
            (let files_with_content = read_files (local_file_paths cfg d)
             in if files_with_content \<noteq> []
                then map_sum id Some (analyze_multiple_files cfg ollama loads files_with_content)
                else Inr None))"

section \<open>A decoder for concrete runs\<close>

text \<open>
  Concrete runs need a concrete decoder. \<open>json_loads\<close> decodes the fragment of JSON
  made of objects, arrays, strings with the two-character escapes, decimal numbers and
  the three literals, as \<open>json.loads\<close> does: it skips the same white space at the same
  places, later duplicate keys overwrite earlier ones, and text after the value is an
  error. What lies outside the fragment (\<open>\u\<close> escapes, \<open>NaN\<close>, \<open>Infinity\<close>) is a
  decoding error here. The fuel bounds the nesting; the length of the text is enough.
\<close>

definition is_ws :: "char \<Rightarrow> bool" where
  "is_ws c = (c = CHR '' '' \<or> c = CHR 0x09 \<or> c = CHR 0x0A \<or> c = CHR 0x0D)"

definition is_digit :: "char \<Rightarrow> bool" where
  "is_digit c = (48 \<le> (of_char c :: nat) \<and> (of_char c :: nat) \<le> 57)"

definition skip_ws :: "string \<Rightarrow> string" where
  "skip_ws s = dropWhile is_ws s"

fun digits_val :: "nat \<Rightarrow> string \<Rightarrow> nat" where
  "digits_val acc [] = acc"
| "digits_val acc (c # cs) = digits_val (10 * acc + (of_char c - 48)) cs"

text \<open>The integer part of a number: a single \<open>0\<close>, or digits that start with 1 to 9.\<close>

definition int_part :: "string \<Rightarrow> string \<times> string" where
  "int_part s =
     (case s of
        [] \<Rightarrow> ([], [])
      | c # cs \<Rightarrow> if c = CHR ''0'' then ([c], cs)
                 else (takeWhile is_digit s, dropWhile is_digit s))"

definition frac_part :: "string \<Rightarrow> string \<times> string" where
  "frac_part s =
     (case s of
        [] \<Rightarrow> ([], s)
      | c # cs \<Rightarrow> if c = CHR ''.'' \<and> takeWhile is_digit cs \<noteq> []
                 then (takeWhile is_digit cs, dropWhile is_digit cs)
                 else ([], s))"

definition exp_part :: "string \<Rightarrow> (bool \<times> string) option \<times> string" where
  "exp_part s =
     (case s of
        [] \<Rightarrow> (None, s)
      | c # cs \<Rightarrow>
          if c = CHR ''e'' \<or> c = CHR ''E'' then
            (let neg = (cs \<noteq> [] \<and> hd cs = CHR ''-'');
                 ds = (if cs \<noteq> [] \<and> (hd cs = CHR ''-'' \<or> hd cs = CHR ''+'') then tl cs else cs)
             in if takeWhile is_digit ds \<noteq> []
                then (Some (neg, takeWhile is_digit ds), dropWhile is_digit ds)
                else (None, s))
          else (None, s))"

definition parse_number :: "string \<Rightarrow> (json \<times> string) option" where
  "parse_number s =
     (let neg = (s \<noteq> [] \<and> hd s = CHR ''-'');
          (ds, s1) = int_part (if neg then tl s else s);
          (fs, s2) = frac_part s1;
          (ex, s3) = exp_part s2;
          m = (of_nat (digits_val 0 ds) + of_nat (digits_val 0 fs) / 10 ^ length fs :: rat);
          v = (case ex of
                 None \<Rightarrow> m
               | Some (eneg, es) \<Rightarrow>
                   if eneg then m / 10 ^ digits_val 0 es else m * 10 ^ digits_val 0 es)
      in if ds = [] then None else Some (JNum (if neg then - v else v), s3))"

definition unescape :: "char \<Rightarrow> char option" where
  "unescape c =
     (if c = CHR 0x22 \<or> c = CHR 0x5C \<or> c = CHR ''/'' then Some c
      else if c = CHR ''b'' then Some (CHR 0x08)
      else if c = CHR ''f'' then Some (CHR 0x0C)
      else if c = CHR ''n'' then Some (CHR 0x0A)
      else if c = CHR ''r'' then Some (CHR 0x0D)
      else if c = CHR ''t'' then Some (CHR 0x09)
      else None)"

text \<open>The rest of a string after its opening quote; control characters are refused.\<close>

fun parse_string :: "string \<Rightarrow> (string \<times> string) option" where
  "parse_string [] = None"
| "parse_string [c] = (if c = CHR 0x22 then Some ([], []) else None)"
| "parse_string (c # e # cs) =
     (if c = CHR 0x22 then Some ([], e # cs)
      else if c = CHR 0x5C then
        (case unescape e of
           None \<Rightarrow> None
         | Some x \<Rightarrow> map_option (\<lambda>(t, r). (x # t, r)) (parse_string cs))
      else if (of_char c :: nat) < 32 then None
      else map_option (\<lambda>(t, r). (c # t, r)) (parse_string (e # cs)))"

definition starts_with :: "string \<Rightarrow> string \<Rightarrow> bool" where
  "starts_with s p = (take (length p) s = p)"

fun parse_value :: "nat \<Rightarrow> string \<Rightarrow> (json \<times> string) option"
and parse_elements :: "nat \<Rightarrow> json list \<Rightarrow> string \<Rightarrow> (json \<times> string) option"
and parse_members :: "nat \<Rightarrow> dict \<Rightarrow> string \<Rightarrow> (json \<times> string) option"
where
  "parse_value 0 s = None"
| "parse_value (Suc n) s =
     (case s of
        [] \<Rightarrow> None
      | c # cs \<Rightarrow>
          if c = CHR ''{'' then
            (if starts_with (skip_ws cs) ''}'' then Some (JObj [], tl (skip_ws cs))
             else parse_members n [] (skip_ws cs))
          else if c = CHR ''['' then
            (if starts_with (skip_ws cs) '']'' then Some (JArr [], tl (skip_ws cs))
             else parse_elements n [] (skip_ws cs))
          else if c = CHR 0x22 then map_option (\<lambda>(t, r). (JStr t, r)) (parse_string cs)
          else if starts_with s ''null'' then Some (JNull, drop 4 s)
          else if starts_with s ''true'' then Some (JBool True, drop 4 s)
          else if starts_with s ''false'' then Some (JBool False, drop 5 s)
          else parse_number s)"
| "parse_elements 0 acc s = None"
| "parse_elements (Suc n) acc s =
     (case parse_value n s of
        None \<Rightarrow> None
      | Some (v, r) \<Rightarrow>
          if starts_with (skip_ws r) '','' then
            parse_elements n (acc @ [v]) (skip_ws (tl (skip_ws r)))
          else if starts_with (skip_ws r) '']'' then Some (JArr (acc @ [v]), tl (skip_ws r))
          else None)"
| "parse_members 0 acc s = None"
| "parse_members (Suc n) acc s =
     (if \<not> starts_with s [CHR 0x22] then None
      else
        (case parse_string (tl s) of
           None \<Rightarrow> None
         | Some (k, r) \<Rightarrow>
             if \<not> starts_with (skip_ws r) '':'' then None
             else
               (case parse_value n (skip_ws (tl (skip_ws r))) of
                  None \<Rightarrow> None
                | Some (v, r') \<Rightarrow>
                    if starts_with (skip_ws r') '','' then
                      parse_members n (dict_set acc k v) (skip_ws (tl (skip_ws r')))
                    else if starts_with (skip_ws r') ''}'' then
                      Some (JObj (dict_set acc k v), tl (skip_ws r'))
                    else None)))"

definition json_loads :: "string \<Rightarrow> error + dict" where
  "json_loads s =
     (case parse_value (length s) (skip_ws s) of
        Some (JObj d, r) \<Rightarrow> if skip_ws r = [] then Inr d else Inl JSONDecodeError
      | _ \<Rightarrow> Inl JSONDecodeError)"

section \<open>Reading a batch\<close>

text \<open>
  The vocabulary of the statements below. \<open>prompt_of\<close> is the prompt that the batch
  builds for a file, where no language is passed. \<open>batch_results\<close> lists, for the
  records with content, the result of each, the \<open>n\<close>-th call of the batch going to
  \<open>ollama n\<close>. Python adds numbers and truth values and measures lists, strings and
  dictionaries; \<open>scores_ok\<close> and \<open>issues_ok\<close> say that neither the total nor the
  issue count raises.
\<close>

definition prompt_of :: "file_info \<Rightarrow> prompt" where
  "prompt_of file = \<lparr> language = detect_language (path file), file_path = path file, code = content file \<rparr>"

fun batch_results :: "service \<Rightarrow> (string \<Rightarrow> error + dict) \<Rightarrow> nat \<Rightarrow> file_info list \<Rightarrow> dict list" where
  "batch_results ollama loads n [] = []"
| "batch_results ollama loads n (file # rest) =
     (if content file \<noteq> []
      then analyze_file (ollama n) loads file # batch_results ollama loads (Suc n) rest
      else batch_results ollama loads n rest)"

fun is_number :: "json \<Rightarrow> bool" where
  "is_number (JNum x) = True"
| "is_number (JBool b) = True"
| "is_number v = False"

fun number_value :: "json \<Rightarrow> rat" where
  "number_value (JNum x) = x"
| "number_value (JBool b) = (if b then 1 else 0)"
| "number_value v = 0"

fun is_sized :: "json \<Rightarrow> bool" where
  "is_sized (JArr xs) = True"
| "is_sized (JStr s) = True"
| "is_sized (JObj d) = True"
| "is_sized v = False"

fun len_value :: "json \<Rightarrow> nat" where
  "len_value (JArr xs) = length xs"
| "len_value (JStr s) = length s"
| "len_value (JObj d) = length d"
| "len_value v = 0"

definition scores_ok :: "dict list \<Rightarrow> bool" where
  "scores_ok rs = list_all (\<lambda>r. is_number (score_or_default r)) rs"

definition issues_ok :: "dict list \<Rightarrow> bool" where
  "issues_ok rs = list_all (\<lambda>r. is_sized (issues_or_default r)) rs"

definition score_sum :: "dict list \<Rightarrow> rat" where
  "score_sum rs = sum_list (map (\<lambda>r. number_value (score_or_default r)) rs)"

definition issue_count :: "dict list \<Rightarrow> nat" where
  "issue_count rs = sum_list (map (\<lambda>r. len_value (issues_or_default r)) rs)"

definition score_in_range :: "dict \<Rightarrow> bool" where
  "score_in_range r =
     (case dict_get r ''overall_score'' of
        Some (JNum x) \<Rightarrow> 0 \<le> x \<and> x \<le> 10
      | _ \<Rightarrow> False)"

definition mean_score :: "dict list \<Rightarrow> rat" where
  "mean_score rs = (if rs \<noteq> [] then score_sum rs / of_nat (length rs) else 0)"




section \<open>Reading a collection\<close>

text \<open>
  \<open>file_cap\<close> is the count that the repository mode cuts to, \<open>size_ok\<close> the files
  within the size limit, and \<open>pr_kept\<close> says that an entry of a pull request passes
  every test of the loop.
\<close>

definition file_cap :: "config \<Rightarrow> int option \<Rightarrow> int" where
  "file_cap cfg max_files =
     (case max_files of
        None \<Rightarrow> MAX_FILES_PER_ANALYSIS cfg
      | Some m \<Rightarrow> if m \<noteq> 0 then m else MAX_FILES_PER_ANALYSIS cfg)"

definition size_ok :: "config \<Rightarrow> remote_file list \<Rightarrow> remote_file list" where
  "size_ok cfg all_files = filter (\<lambda>f. rf_size f \<le> MAX_FILE_SIZE cfg) all_files"

definition pr_kept :: "config \<Rightarrow> (string \<Rightarrow> string option) \<Rightarrow> pr_file \<Rightarrow> bool" where
  "pr_kept cfg get_file_content e =
     (status e \<noteq> ''removed'' \<and> supported cfg (filename e)
      \<and> (case get_file_content (filename e) of None \<Rightarrow> False | Some c \<Rightarrow> c \<noteq> []))"

section \<open>Example runs\<close>



definition two_files :: "file_info list" where
  "two_files =
     [\<lparr> path = ''a.py'', content = ''x = 1'', meta = [(''size'', 5)] \<rparr>,
      \<lparr> path = ''b.py'', content = ''y = 2'', meta = [(''size'', 5)] \<rparr>]"


definition project_with_empty_file :: dir where
  "project_with_empty_file =
     Dir [\<lparr> fname = ''__init__.py'', fsize = 0, ftext = Some [] \<rparr>,
          \<lparr> fname = ''a.py'', fsize = 5, ftext = Some ''x = 1'' \<rparr>] []"


definition five_files :: "remote_file list" where
  "five_files =
     [\<lparr> rf_name = ''a.py'', rf_path = ''a.py'', rf_size = 50, rf_download_url = [] \<rparr>,
      \<lparr> rf_name = ''b.py'', rf_path = ''b.py'', rf_size = 10, rf_download_url = [] \<rparr>,
      \<lparr> rf_name = ''c.py'', rf_path = ''c.py'', rf_size = 30, rf_download_url = [] \<rparr>,
      \<lparr> rf_name = ''d.py'', rf_path = ''d.py'', rf_size = 90, rf_download_url = [] \<rparr>,
      \<lparr> rf_name = ''e.py'', rf_path = ''e.py'', rf_size = 20, rf_download_url = [] \<rparr>]"

definition five_local_files :: dir where
  "five_local_files =
     Dir [\<lparr> fname = ''a.py'', fsize = 50, ftext = Some ''a'' \<rparr>,
          \<lparr> fname = ''b.py'', fsize = 10, ftext = Some ''b'' \<rparr>,
          \<lparr> fname = ''c.py'', fsize = 30, ftext = Some ''c'' \<rparr>,
          \<lparr> fname = ''d.py'', fsize = 90, ftext = Some ''d'' \<rparr>,
          \<lparr> fname = ''e.py'', fsize = 20, ftext = Some ''e'' \<rparr>] []"

definition big_text :: string where
  "big_text = replicate 50001 (CHR ''x'')"

definition one_changed_file :: "pr_file list" where
  "one_changed_file =
     [\<lparr> status = ''modified'', filename = ''big.py'', changes = 1, additions = 1, deletions = 0 \<rparr>]"

definition example_listing :: "item list option" where
  "example_listing =
     Some [FileItem ''a.py'' ''a.py'' 10 [],
           FileItem ''notes.txt'' ''notes.txt'' 5 [],
           DirItem ''src'' (Some [FileItem ''c.js'' ''src/c.js'' 60000 []]),
           DirItem ''docs'' None]"

definition example_pr_files :: "pr_file list" where
  "example_pr_files =
     [\<lparr> status = ''removed'', filename = ''old.py'', changes = 3, additions = 0, deletions = 3 \<rparr>,
      \<lparr> status = ''modified'', filename = ''notes.txt'', changes = 1, additions = 1, deletions = 0 \<rparr>,
      \<lparr> status = ''added'', filename = ''new.py'', changes = 2, additions = 2, deletions = 0 \<rparr>]"

section \<open>Properties\<close>

subsection \<open>Finding the braces\<close>

lemma str_find_absent: "c \<notin> set s \<Longrightarrow> str_find c s = -1"
  by (induction s) (auto simp: Let_def)

lemma str_find_first:
  "c \<in> set s \<Longrightarrow>
     \<exists>i. str_find c s = int i \<and> i < length s \<and> s ! i = c \<and> (\<forall>k<i. s ! k \<noteq> c)"
proof (induction s)
  case Nil
  then show ?case by simp
next
  case (Cons x xs)
  show ?case
  proof (cases "x = c")
    case True
    then have "str_find c (x # xs) = int 0 \<and> 0 < length (x # xs) \<and> (x # xs) ! 0 = c
                 \<and> (\<forall>k<0. (x # xs) ! k \<noteq> c)"
      by simp
    then show ?thesis by blast
  next
    case False
    with Cons.prems have "c \<in> set xs" by simp
    from Cons.IH [OF this] obtain i where
      i: "str_find c xs = int i" "i < length xs" "xs ! i = c" "\<forall>k<i. xs ! k \<noteq> c"
      by auto
    have "\<forall>k<Suc i. (x # xs) ! k \<noteq> c"
      using False i(4) by (auto simp: nth_Cons split: nat.splits)
    moreover have "str_find c (x # xs) = int (Suc i)"
      using False i(1) by (simp add: Let_def)
    ultimately have "str_find c (x # xs) = int (Suc i) \<and> Suc i < length (x # xs)
                       \<and> (x # xs) ! Suc i = c \<and> (\<forall>k<Suc i. (x # xs) ! k \<noteq> c)"
      using i(2) i(3) by simp
    then show ?thesis by blast
  qed
qed

lemma str_rfind_absent: "c \<notin> set s \<Longrightarrow> str_rfind c s = -1"
  by (simp add: str_rfind_def str_find_absent)

lemma str_rfind_last:
  assumes "c \<in> set s"
  shows "\<exists>j. str_rfind c s = int j \<and> j < length s \<and> s ! j = c
           \<and> (\<forall>k. j < k \<and> k < length s \<longrightarrow> s ! k \<noteq> c)"
proof -
  from assms have "c \<in> set (rev s)" by simp
  from str_find_first [OF this] obtain i where
    i: "str_find c (rev s) = int i" "i < length s" "rev s ! i = c" "\<forall>k<i. rev s ! k \<noteq> c"
    by auto
  let ?j = "length s - 1 - i"
  have j_lt: "?j < length s" using i(2) by simp
  have val: "str_rfind c s = int ?j"
    using i(1) i(2) by (simp add: str_rfind_def Let_def of_nat_diff)
  have at: "s ! ?j = c"
    using i(2) i(3) by (simp add: rev_nth)
  have after: "\<forall>k. ?j < k \<and> k < length s \<longrightarrow> s ! k \<noteq> c"
  proof (intro allI impI)
    fix k assume k: "?j < k \<and> k < length s"
    then have lt: "length s - 1 - k < i" by arith
    have "length s - 1 - k < length s" using k by arith
    then have "rev s ! (length s - 1 - k) = s ! (length s - Suc (length s - 1 - k))"
      by (rule rev_nth)
    moreover have "length s - Suc (length s - 1 - k) = k" using k by arith
    ultimately have "rev s ! (length s - 1 - k) = s ! k" by simp
    with i(4) lt show "s ! k \<noteq> c" by auto
  qed
  show ?thesis using val j_lt at after by blast
qed

lemma slice_positions:
  assumes "i < length s" "j < length s"
  shows "slice (int i) (int j + 1) s = map ((!) s) [i..<Suc j]"
proof -
  have "slice (int i) (int j + 1) s = take (Suc j - i) (drop i s)"
    using assms by (simp add: slice_def slice_bound_def Let_def nat_add_distrib min_def)
  also have "\<dots> = map ((!) s) [i..<Suc j]"
    using assms by (intro nth_equalityI) (auto simp del: upt_Suc)
  finally show ?thesis .
qed

lemma parse_json_response_absent:
  "CHR ''{'' \<notin> set response \<or> CHR ''}'' \<notin> set response
     \<Longrightarrow> parse_json_response loads response = Inl ValueError"
  by (auto simp: parse_json_response_def Let_def str_find_absent str_rfind_absent)

lemma parse_json_response_present:
  assumes "CHR ''{'' \<in> set response" "CHR ''}'' \<in> set response"
  shows "\<exists>i j. i < length response \<and> response ! i = CHR ''{''
           \<and> (\<forall>k<i. response ! k \<noteq> CHR ''{'')
           \<and> j < length response \<and> response ! j = CHR ''}''
           \<and> (\<forall>k. j < k \<and> k < length response \<longrightarrow> response ! k \<noteq> CHR ''}'')
           \<and> parse_json_response loads response = loads (map ((!) response) [i..<Suc j])"
proof -
  from str_find_first [OF assms(1)] obtain i where
    i: "str_find (CHR ''{'') response = int i" "i < length response"
       "response ! i = CHR ''{''" "\<forall>k<i. response ! k \<noteq> CHR ''{''"
    by auto
  from str_rfind_last [OF assms(2)] obtain j where
    j: "str_rfind (CHR ''}'') response = int j" "j < length response"
       "response ! j = CHR ''}''"
       "\<forall>k. j < k \<and> k < length response \<longrightarrow> response ! k \<noteq> CHR ''}''"
    by auto
  have "parse_json_response loads response = loads (slice (int i) (int j + 1) response)"
    using i(1) j(1) by (simp add: parse_json_response_def Let_def)
  then have "parse_json_response loads response = loads (map ((!) response) [i..<Suc j])"
    using slice_positions [OF i(2) j(2)] by simp
  with i j show ?thesis by blast
qed

subsection \<open>Concrete runs\<close>

lemma example_response_decoded:
  \<open>parse_json_response json_loads
     ''here is the result: {"overall_score": 7, "issues": [], "improvements": [], "positive_points": []} thanks''
   = Inr [(''overall_score'', JNum 7), (''issues'', JArr []), (''improvements'', JArr []),
          (''positive_points'', JArr [])]\<close>
  by code_simp

lemma decoded_score_11:
  \<open>parse_json_response json_loads ''{"overall_score": 11}'' = Inr [(''overall_score'', JNum 11)]\<close>
  by code_simp

lemma decoded_error_key:
  \<open>parse_json_response json_loads ''{"error": "none"}'' = Inr [(''error'', JStr ''none'')]\<close>
  by code_simp



lemma two_files_failed_report:
  "analyze_multiple_files default_config (\<lambda>n p. None) json_loads two_files =
     Inr \<lparr> summary = \<lparr> total_files = 2, average_score = 0, total_issues = 0 \<rparr>,
           files = [[(''overall_score'', JNum 0), (''issues'', JArr []),
               (''improvements'', JArr [JStr ''analysis failed'']),
               (''positive_points'', JArr []),
               (''error'', JStr ''LLM analysis failed''), (''file_path'', JStr ''a.py'')],
              [(''overall_score'', JNum 0), (''issues'', JArr []),
               (''improvements'', JArr [JStr ''analysis failed'']),
               (''positive_points'', JArr []),
               (''error'', JStr ''LLM analysis failed''), (''file_path'', JStr ''b.py'')]] \<rparr>"
  by code_simp


subsection \<open>The three kinds of result\<close>

lemma analyze_response_failure:
  "response = None \<or> response = Some [] \<Longrightarrow> analyze_response loads response = create_empty_result"
  by (auto simp: analyze_response_def)

lemma analyze_response_fallback:
  "r \<noteq> [] \<Longrightarrow> parse_json_response loads r = Inl e
     \<Longrightarrow> analyze_response loads (Some r) = create_fallback_result r"
  by (simp add: analyze_response_def)

lemma analyze_response_normal:
  "r \<noteq> [] \<Longrightarrow> parse_json_response loads r = Inr d \<Longrightarrow> analyze_response loads (Some r) = d"
  by (simp add: analyze_response_def)

lemma slice_to_take: "0 \<le> b \<Longrightarrow> slice_to b xs = take (nat b) xs"
  by (simp add: slice_to_def slice_bound_def min_def)

lemma create_fallback_result_fields:
  "create_fallback_result r =
     [(''overall_score'', JNum 5), (''issues'', JArr []),
      (''improvements'', JArr [JStr parse_failed_note]), (''positive_points'', JArr []),
      (''raw_response'', JStr (take 500 r))]"
  by (simp add: create_fallback_result_def slice_to_take)

lemma dict_get_set_other: "k \<noteq> k' \<Longrightarrow> dict_get (dict_set d k' v) k = dict_get d k"
  by (simp add: dict_get_def dict_set_def update_conv')

lemma dict_get_set_same: "dict_get (dict_set d k v) k = Some v"
  by (simp add: dict_get_def dict_set_def update_conv')

text \<open>
  C4. When the response holds both braces, the parser decodes exactly the characters
  from the first \<open>{\<close> to the last \<open>}\<close>, both included (none when the last \<open>}\<close>
  comes before the first \<open>{\<close>), and returns what the decoder returns; when one of
  the braces is absent it raises \<open>ValueError\<close>. On the text of the round-trip example
  it returns the embedded object and nothing of the prose.
\<close>

theorem parse_json_response_first_to_last:
  \<open>(CHR ''{'' \<in> set response \<and> CHR ''}'' \<in> set response \<longrightarrow>
      (\<exists>i j. i < length response \<and> response ! i = CHR ''{''
         \<and> (\<forall>k<i. response ! k \<noteq> CHR ''{'')
         \<and> j < length response \<and> response ! j = CHR ''}''
         \<and> (\<forall>k. j < k \<and> k < length response \<longrightarrow> response ! k \<noteq> CHR ''}'')
         \<and> parse_json_response loads response = loads (map ((!) response) [i..<Suc j])))
   \<and> (CHR ''{'' \<notin> set response \<or> CHR ''}'' \<notin> set response \<longrightarrow>
        parse_json_response loads response = Inl ValueError)
   \<and> parse_json_response json_loads
        ''here is the result: {"overall_score": 7, "issues": [], "improvements": [], "positive_points": []} thanks''
      = Inr [(''overall_score'', JNum 7), (''issues'', JArr []), (''improvements'', JArr []),
             (''positive_points'', JArr [])]\<close>
  using parse_json_response_present [of response loads]
    parse_json_response_absent [of response loads] example_response_decoded
  by blast

theorem parse_json_response_first_to_last_witness:
  \<open>CHR ''{'' \<in> set ''ok {} done'' \<and> CHR ''}'' \<in> set ''ok {} done''
   \<and> (\<exists>i j. parse_json_response json_loads ''ok {} done''
               = json_loads (map ((!) ''ok {} done'') [i..<Suc j]))
   \<and> CHR ''{'' \<notin> set ''no braces''
   \<and> parse_json_response json_loads ''no braces'' = Inl ValueError\<close>
proof -
  have h: \<open>CHR ''{'' \<in> set ''ok {} done'' \<and> CHR ''}'' \<in> set ''ok {} done''\<close>
    by simp
  have n: \<open>CHR ''{'' \<notin> set ''no braces'' \<or> CHR ''}'' \<notin> set ''no braces''\<close>
    by simp
  have \<open>\<exists>i j. parse_json_response json_loads ''ok {} done''
               = json_loads (map ((!) ''ok {} done'') [i..<Suc j])\<close>
    using parse_json_response_first_to_last [of "''ok {} done''" json_loads] h by blast
  moreover have \<open>parse_json_response json_loads ''no braces'' = Inl ValueError\<close>
    using parse_json_response_first_to_last [of "''no braces''" json_loads] n by blast
  ultimately show ?thesis using h by simp
qed


subsection \<open>The batch as a list of results\<close>

lemma add_score_eq:
  "add_score t v = (if is_number v then Inr (t + number_value v) else Inl TypeError)"
  by (cases v) auto

lemma py_len_eq: "py_len v = (if is_sized v then Inr (len_value v) else Inl TypeError)"
  by (cases v) auto

lemma analyze_loop_eq:
  "analyze_loop ollama loads fs rs t =
     (if scores_ok (batch_results ollama loads (length rs) fs)
      then Inr (rs @ batch_results ollama loads (length rs) fs,
                t + score_sum (batch_results ollama loads (length rs) fs))
      else Inl TypeError)"
proof (induction fs arbitrary: rs t)
  case Nil
  then show ?case by (simp add: scores_ok_def score_sum_def)
next
  case (Cons f fs)
  show ?case
  proof (cases "content f = []")
    case True
    then show ?thesis using Cons.IH [of rs t] by simp
  next
    case False
    let ?r = "analyze_file (ollama (length rs)) loads f"
    show ?thesis
    proof (cases "is_number (score_or_default ?r)")
      case True
      then show ?thesis
        using False Cons.IH [of "rs @ [?r]" "t + number_value (score_or_default ?r)"]
        by (simp add: add_score_eq scores_ok_def score_sum_def Let_def)
    next
      case no: False
      then show ?thesis
        using False by (simp add: add_score_eq scores_ok_def Let_def)
    qed
  qed
qed

lemma sum_issues_eq:
  "sum_issues rs acc = (if issues_ok rs then Inr (acc + issue_count rs) else Inl TypeError)"
  by (induction rs arbitrary: acc) (auto simp: py_len_eq issues_ok_def issue_count_def)

lemma analyze_multiple_files_eq:
  "analyze_multiple_files cfg ollama loads fs =
     (let rs = batch_results ollama loads 0 (slice_to (MAX_FILES_PER_ANALYSIS cfg) fs)
      in if scores_ok rs \<and> issues_ok rs
         then Inr \<lparr> summary = \<lparr> total_files = length rs,
                                 average_score = round1 (mean_score rs),
                                 total_issues = issue_count rs \<rparr>,
                     files = rs \<rparr>
         else Inl TypeError)"
  by (simp add: analyze_multiple_files_def analyze_loop_eq sum_issues_eq Let_def mean_score_def)

lemma length_batch_results:
  "length (batch_results ollama loads n fs) = length (filter (\<lambda>f. content f \<noteq> []) fs)"
  by (induction fs arbitrary: n) auto

subsection \<open>Failure and fallback records\<close>

lemma analyze_file_response:
  "analyze_file call loads file =
     dict_set (analyze_response loads (call (prompt_of file))) ''file_path'' (JStr (path file))"
  by (simp add: analyze_file_def analyze_code_def prompt_of_def Let_def)

lemma analyze_file_get:
  "k \<noteq> ''file_path'' \<Longrightarrow>
     dict_get (analyze_file call loads file) k
       = dict_get (analyze_response loads (call (prompt_of file))) k"
  by (simp add: analyze_file_response dict_get_set_other)

lemma analyze_file_failed:
  "call (prompt_of file) = None \<Longrightarrow>
     analyze_file call loads file =
       [(''overall_score'', JNum 0), (''issues'', JArr []),
        (''improvements'', JArr [JStr analysis_failed_note]), (''positive_points'', JArr []),
        (''error'', JStr analysis_failed_error), (''file_path'', JStr (path file))]"
  by (simp add: analyze_file_response analyze_response_def create_empty_result_def dict_set_def)

text \<open>
  C3 (as amended). When the call for a file fails, the file gets the failure record:
  score 0, no issues, the one improvement note "analysis failed", no positive points,
  and the error marker; its 0 is added to the total and the loop goes on with the next
  file. The claim's "empty improvements" is what the code does not do.
\<close>

theorem failed_call_record_and_next_file:
  assumes "content file \<noteq> []"
    and "ollama (length results) (prompt_of file) = None"
  shows "analyze_file (ollama (length results)) loads file =
           [(''overall_score'', JNum 0), (''issues'', JArr []),
            (''improvements'', JArr [JStr analysis_failed_note]),
            (''positive_points'', JArr []),
            (''error'', JStr analysis_failed_error), (''file_path'', JStr (path file))]
       \<and> analyze_loop ollama loads (file # rest) results total_score =
           analyze_loop ollama loads rest
             (results @ [analyze_file (ollama (length results)) loads file]) total_score"
proof -
  let ?r = "analyze_file (ollama (length results)) loads file"
  have r: "?r = [(''overall_score'', JNum 0), (''issues'', JArr []),
            (''improvements'', JArr [JStr analysis_failed_note]),
            (''positive_points'', JArr []),
            (''error'', JStr analysis_failed_error), (''file_path'', JStr (path file))]"
    using assms(2) by (rule analyze_file_failed)
  have "score_or_default ?r = JNum 0"
    unfolding r by (simp add: score_or_default_def dict_get_def)
  then have "analyze_loop ollama loads (file # rest) results total_score =
           analyze_loop ollama loads rest (results @ [?r]) total_score"
    using assms(1) by (simp add: Let_def)
  with r show ?thesis by simp
qed

theorem failed_call_record_and_next_file_witness:
  "analyze_loop (\<lambda>n p. None) json_loads
     [\<lparr> path = ''a.py'', content = ''x = 1'', meta = [] \<rparr>,
      \<lparr> path = ''b.py'', content = ''y = 2'', meta = [] \<rparr>] [] 0
   = analyze_loop (\<lambda>n p. None) json_loads
       [\<lparr> path = ''b.py'', content = ''y = 2'', meta = [] \<rparr>]
       [[(''overall_score'', JNum 0), (''issues'', JArr []),
         (''improvements'', JArr [JStr analysis_failed_note]),
         (''positive_points'', JArr []),
         (''error'', JStr analysis_failed_error), (''file_path'', JStr ''a.py'')]] 0"
proof -
  let ?a = "\<lparr> path = ''a.py'', content = ''x = 1'', meta = [] \<rparr>"
  let ?b = "\<lparr> path = ''b.py'', content = ''y = 2'', meta = [] \<rparr>"
  have "analyze_loop (\<lambda>n p. None) json_loads (?a # [?b]) [] 0
      = analyze_loop (\<lambda>n p. None) json_loads [?b]
          ([] @ [analyze_file (\<lambda>p. None) json_loads ?a]) 0"
    by (rule failed_call_record_and_next_file
          [of ?a "\<lambda>n p. None" "[]" json_loads "[?b]" 0, THEN conjunct2]) simp_all
  then show ?thesis
    by (simp add: analyze_file_failed del: analyze_loop.simps)
qed

theorem failure_record_improvements_counterexample:
  "dict_get (analyze_file (\<lambda>p. None) json_loads \<lparr> path = ''a.py'', content = ''x = 1'', meta = [] \<rparr>)
     ''improvements'' = Some (JArr [JStr ''analysis failed''])
   \<and> JArr [JStr ''analysis failed''] \<noteq> JArr []"
  by (simp add: analyze_file_failed dict_get_def analysis_failed_note_def)

text \<open>
  C5 (as amended). For every non-empty response text that the parser fails on, the
  result is the fallback record: score 5.0, no issues, the one improvement note about
  the unparseable response, no positive points, and the first 500 characters of the
  text as \<open>raw_response\<close> (all of it when it is shorter). The empty text is not
  parsed at all: \<open>if response:\<close> sends it to the failure record.
\<close>

theorem fallback_record_fields:
  assumes "response \<noteq> []"
    and "parse_json_response loads response = Inl e"
  shows "analyze_response loads (Some response) =
           [(''overall_score'', JNum 5), (''issues'', JArr []),
            (''improvements'', JArr [JStr parse_failed_note]), (''positive_points'', JArr []),
            (''raw_response'', JStr (take 500 response))]
       \<and> (length response \<le> 500 \<longrightarrow> take 500 response = response)"
  using assms by (simp add: analyze_response_fallback create_fallback_result_fields)

theorem fallback_record_fields_witness:
  "''no json here'' \<noteq> [] \<and> parse_json_response json_loads ''no json here'' = Inl ValueError
   \<and> analyze_response json_loads (Some ''no json here'') =
           [(''overall_score'', JNum 5), (''issues'', JArr []),
            (''improvements'', JArr [JStr parse_failed_note]), (''positive_points'', JArr []),
            (''raw_response'', JStr ''no json here'')]"
proof -
  have a: "''no json here'' \<noteq> []" by simp
  have b: "parse_json_response json_loads ''no json here'' = Inl ValueError"
    by (rule parse_json_response_absent) simp
  show ?thesis
    using fallback_record_fields [OF a b] a b by simp
qed

theorem empty_response_counterexample:
  "parse_json_response json_loads [] = Inl ValueError
   \<and> dict_get (analyze_response json_loads (Some [])) ''overall_score'' = Some (JNum 0)
   \<and> dict_get (analyze_response json_loads (Some [])) ''raw_response'' = None"
  by (simp add: parse_json_response_absent analyze_response_def create_empty_result_def
      dict_get_def)

subsection \<open>What the decoded mapping brings along\<close>


lemma batch_results_elems:
  "res \<in> set (batch_results ollama loads n fs) \<Longrightarrow>
     \<exists>m f. f \<in> set fs \<and> content f \<noteq> [] \<and> res = analyze_file (ollama m) loads f"
proof (induction fs arbitrary: n)
  case Nil
  then show ?case by simp
next
  case (Cons a fs)
  then show ?case by (cases "content a = []") (auto, blast+)
qed

lemma set_slice_to: "set (slice_to b xs) \<subseteq> set xs"
  by (simp add: slice_to_def set_take_subset)

lemma report_results_from_files:
  assumes "analyze_multiple_files cfg ollama loads fs = Inr rep" "res \<in> set (files rep)"
  shows "\<exists>m f. f \<in> set fs \<and> content f \<noteq> [] \<and> res = analyze_file (ollama m) loads f"
proof -
  have "res \<in> set (batch_results ollama loads 0 (slice_to (MAX_FILES_PER_ANALYSIS cfg) fs))"
    using assms by (auto simp: analyze_multiple_files_eq Let_def split: if_splits)
  from batch_results_elems [OF this] show ?thesis
    using set_slice_to [of "MAX_FILES_PER_ANALYSIS cfg" fs] by blast
qed

lemma score_in_range_analyze_file:
  "score_in_range (analyze_file call loads file)
     = score_in_range (analyze_response loads (call (prompt_of file)))"
  by (simp add: score_in_range_def analyze_file_get)

text \<open>
  C7 (as amended). Every result of a report is the result of one of the files. A
  failure record and a fallback record have a score within 0 to 10. A normal result is
  the decoded mapping, so its score is within 0 to 10 exactly when the mapping has a
  number there that is: the code checks neither the range nor the presence of the score.
\<close>

theorem score_range_by_kind:
  "score_in_range (analyze_file call loads file) =
     (case call (prompt_of file) of
        None \<Rightarrow> True
      | Some r \<Rightarrow>
          if r = [] then True
          else (case parse_json_response loads r of
                  Inl e \<Rightarrow> True
                | Inr d \<Rightarrow> score_in_range d))
   \<and> (\<forall>rep res. analyze_multiple_files cfg ollama loads fs = Inr rep \<and> res \<in> set (files rep) \<longrightarrow>
        (\<exists>m f. f \<in> set fs \<and> content f \<noteq> [] \<and> res = analyze_file (ollama m) loads f))"
proof -
  have a: "score_in_range create_empty_result"
    by (simp add: score_in_range_def create_empty_result_def dict_get_def)
  have b: "score_in_range (create_fallback_result r)" for r
    by (simp add: score_in_range_def create_fallback_result_def dict_get_def)
  have "score_in_range (analyze_file call loads file) =
     (case call (prompt_of file) of
        None \<Rightarrow> True
      | Some r \<Rightarrow>
          if r = [] then True
          else (case parse_json_response loads r of
                  Inl e \<Rightarrow> True
                | Inr d \<Rightarrow> score_in_range d))"
    by (simp add: score_in_range_analyze_file analyze_response_def a b
        split: option.splits sum.splits)
  then show ?thesis
    using report_results_from_files [of cfg ollama loads fs] by blast
qed

theorem score_range_by_kind_witness:
  "score_in_range (analyze_file (\<lambda>p. None) json_loads
      \<lparr> path = ''a.py'', content = ''x = 1'', meta = [] \<rparr>)
   \<and> (\<exists>m f. f \<in> set two_files \<and> content f \<noteq> []
        \<and> [(''overall_score'', JNum 0), (''issues'', JArr []),
            (''improvements'', JArr [JStr ''analysis failed'']),
            (''positive_points'', JArr []),
            (''error'', JStr ''LLM analysis failed''), (''file_path'', JStr ''a.py'')]
          = analyze_file ((\<lambda>n p. None) m) json_loads f)"
proof -
  let ?f = "\<lparr> path = ''a.py'', content = ''x = 1'', meta = [] \<rparr>"
  note t = score_range_by_kind
      [where call = "\<lambda>p. None" and loads = json_loads and cfg = default_config
         and ollama = "\<lambda>n p. None" and fs = two_files]
  have "score_in_range (analyze_file (\<lambda>p. None) json_loads ?f)"
    using t [of ?f] by simp
  moreover have "\<exists>m f. f \<in> set two_files \<and> content f \<noteq> []
        \<and> [(''overall_score'', JNum 0), (''issues'', JArr []),
            (''improvements'', JArr [JStr ''analysis failed'']),
            (''positive_points'', JArr []),
            (''error'', JStr ''LLM analysis failed''), (''file_path'', JStr ''a.py'')]
          = analyze_file ((\<lambda>n p. None) m) json_loads f"
    using t [of ?f, THEN conjunct2] two_files_failed_report by simp
  ultimately show ?thesis by blast
qed

theorem score_out_of_range_counterexample:
  \<open>dict_get (analyze_file (\<lambda>p. Some ''{"overall_score": 11}'') json_loads
       \<lparr> path = ''a.py'', content = ''x = 1'', meta = [] \<rparr>) ''overall_score'' = Some (JNum 11)
    \<and> \<not> score_in_range (analyze_file (\<lambda>p. Some ''{"overall_score": 11}'') json_loads
       \<lparr> path = ''a.py'', content = ''x = 1'', meta = [] \<rparr>)\<close>
proof -
  let ?r = \<open>''{"overall_score": 11}''\<close>
  let ?f = "\<lparr> path = ''a.py'', content = ''x = 1'', meta = [] \<rparr>"
  have "analyze_response json_loads (Some ?r) = [(''overall_score'', JNum 11)]"
    by (rule analyze_response_normal [OF _ decoded_score_11]) simp
  moreover have "dict_get (analyze_file (\<lambda>p. Some ?r) json_loads ?f) ''overall_score''
               = dict_get (analyze_response json_loads (Some ?r)) ''overall_score''"
    by (simp add: analyze_file_get)
  moreover have "dict_get [(''overall_score'', JNum 11)] ''overall_score'' = Some (JNum 11)"
    by (simp add: dict_get_def)
  ultimately have "dict_get (analyze_file (\<lambda>p. Some ?r) json_loads ?f) ''overall_score''
               = Some (JNum 11)"
    by simp
  then show ?thesis by (simp add: score_in_range_def)
qed

text \<open>
  C9 (as amended). A failure record has \<open>error\<close> and no \<open>raw_response\<close>; a
  fallback record has \<open>raw_response\<close> and no \<open>error\<close>; so the two are always told
  apart. A normal result is the decoded mapping as it is, with whatever keys the model
  wrote, \<open>error\<close> and \<open>raw_response\<close> included. Storing the path changes no other
  key.
\<close>

theorem result_kinds_and_markers:
  "(response = None \<or> response = Some [] \<longrightarrow>
      has_key (analyze_response loads response) ''error''
      \<and> \<not> has_key (analyze_response loads response) ''raw_response'')
   \<and> (\<forall>r e. response = Some r \<and> r \<noteq> [] \<and> parse_json_response loads r = Inl e \<longrightarrow>
      has_key (analyze_response loads response) ''raw_response''
      \<and> \<not> has_key (analyze_response loads response) ''error'')
   \<and> (\<forall>r d. response = Some r \<and> r \<noteq> [] \<and> parse_json_response loads r = Inr d \<longrightarrow>
      analyze_response loads response = d)
   \<and> (\<forall>k. k \<noteq> ''file_path'' \<longrightarrow>
      has_key (analyze_file call loads file) k
        = has_key (analyze_response loads (call (prompt_of file))) k)"
proof -
  have "\<forall>k. k \<noteq> ''file_path'' \<longrightarrow>
      has_key (analyze_file call loads file) k
        = has_key (analyze_response loads (call (prompt_of file))) k"
    by (simp add: has_key_def analyze_file_get)
  then show ?thesis
    by (auto simp: analyze_response_def has_key_def dict_get_def create_empty_result_def
        create_fallback_result_def)
qed

theorem error_key_in_normal_result_counterexample:
  \<open>parse_json_response json_loads ''{"error": "none"}'' = Inr [(''error'', JStr ''none'')]
    \<and> has_key (analyze_response json_loads (Some ''{"error": "none"}'')) ''error''\<close>
  by (simp add: decoded_error_key analyze_response_def has_key_def dict_get_def)

theorem result_kinds_and_markers_witness:
  \<open>has_key (analyze_response json_loads None) ''error''
    \<and> \<not> has_key (analyze_response json_loads None) ''raw_response''
    \<and> has_key (analyze_response json_loads (Some ''no json here'')) ''raw_response''
    \<and> \<not> has_key (analyze_response json_loads (Some ''no json here'')) ''error''
    \<and> analyze_response json_loads (Some ''{"overall_score": 11}'') = [(''overall_score'', JNum 11)]
    \<and> has_key (analyze_file (\<lambda>p. None) json_loads
          \<lparr> path = ''a.py'', content = ''x = 1'', meta = [] \<rparr>) ''error''\<close>
proof -
  let ?f = "\<lparr> path = ''a.py'', content = ''x = 1'', meta = [] \<rparr>"
  have "has_key (analyze_file (\<lambda>p. None) json_loads ?f) ''error''
          = has_key (analyze_response json_loads None) ''error''"
    by (rule result_kinds_and_markers
          [where call = "\<lambda>p. None" and loads = json_loads,
           THEN conjunct2, THEN conjunct2, THEN conjunct2, rule_format]) simp
  moreover have n: "has_key (analyze_response json_loads None) ''error''
    \<and> \<not> has_key (analyze_response json_loads None) ''raw_response''"
    using result_kinds_and_markers [of None json_loads] by simp
  ultimately have e: "has_key (analyze_file (\<lambda>p. None) json_loads ?f) ''error''"
    by simp
  have b: "parse_json_response json_loads ''no json here'' = Inl ValueError"
    by (rule parse_json_response_absent) simp
  have f: "has_key (analyze_response json_loads (Some ''no json here'')) ''raw_response''
    \<and> \<not> has_key (analyze_response json_loads (Some ''no json here'')) ''error''"
    using result_kinds_and_markers [of "Some ''no json here''" json_loads] b by simp
  have d: \<open>analyze_response json_loads (Some ''{"overall_score": 11}'') = [(''overall_score'', JNum 11)]\<close>
    using result_kinds_and_markers [of \<open>Some ''{"overall_score": 11}''\<close> json_loads] decoded_score_11
    by simp
  from n f d e show ?thesis by (intro conjI) (simp_all only: simp_thms)
qed

subsection \<open>The summary\<close>


lemma slice_to_all: "int (length xs) \<le> b \<Longrightarrow> slice_to b xs = xs"
  by (simp add: slice_to_def slice_bound_def)


lemma report_of_batch:
  assumes "analyze_multiple_files cfg ollama loads fs = Inr rep"
  shows "files rep = batch_results ollama loads 0 (slice_to (MAX_FILES_PER_ANALYSIS cfg) fs)"
    and "total_files (summary rep) = length (files rep)"
    and "average_score (summary rep) = round1 (mean_score (files rep))"
    and "total_issues (summary rep) = issue_count (files rep)"
    and "scores_ok (files rep)" and "issues_ok (files rep)"
  using assms by (auto simp: analyze_multiple_files_eq Let_def split: if_splits)

lemma batch_returns_iff:
  "(\<exists>rep. analyze_multiple_files cfg ollama loads fs = Inr rep) \<longleftrightarrow>
     scores_ok (batch_results ollama loads 0 (slice_to (MAX_FILES_PER_ANALYSIS cfg) fs))
     \<and> issues_ok (batch_results ollama loads 0 (slice_to (MAX_FILES_PER_ANALYSIS cfg) fs))"
  by (simp add: analyze_multiple_files_eq Let_def)





text \<open>
  C8 (as amended). Given records already capped to \<open>MAX_FILES_PER_ANALYSIS\<close>, the
  batch returns a report exactly when no score and no issue list of a result has a type
  that Python cannot add or measure; the report then holds, in order, one result for
  each record whose content is not empty, and \<open>total_files\<close> is their number. A record
  with empty content gets no result; when no content is empty the number of results is
  the number of records.
\<close>

theorem results_match_records_with_content:
  assumes "int (length fs) \<le> MAX_FILES_PER_ANALYSIS cfg"
  shows "((\<exists>rep. analyze_multiple_files cfg ollama loads fs = Inr rep) \<longleftrightarrow>
            scores_ok (batch_results ollama loads 0 fs)
            \<and> issues_ok (batch_results ollama loads 0 fs))
       \<and> (\<forall>rep. analyze_multiple_files cfg ollama loads fs = Inr rep \<longrightarrow>
            files rep = batch_results ollama loads 0 fs
            \<and> length (files rep) = length (filter (\<lambda>f. content f \<noteq> []) fs)
            \<and> total_files (summary rep) = length (filter (\<lambda>f. content f \<noteq> []) fs)
            \<and> ((\<forall>f \<in> set fs. content f \<noteq> []) \<longrightarrow> length (files rep) = length fs))"
proof -
  have all: "slice_to (MAX_FILES_PER_ANALYSIS cfg) fs = fs"
    using assms by (rule slice_to_all)
  have iff: "(\<exists>rep. analyze_multiple_files cfg ollama loads fs = Inr rep) \<longleftrightarrow>
            scores_ok (batch_results ollama loads 0 fs)
            \<and> issues_ok (batch_results ollama loads 0 fs)"
    using batch_returns_iff [of cfg ollama loads fs] all by simp
  have each: "files rep = batch_results ollama loads 0 fs
            \<and> length (files rep) = length (filter (\<lambda>f. content f \<noteq> []) fs)
            \<and> total_files (summary rep) = length (filter (\<lambda>f. content f \<noteq> []) fs)
            \<and> ((\<forall>f \<in> set fs. content f \<noteq> []) \<longrightarrow> length (files rep) = length fs)"
    if r: "analyze_multiple_files cfg ollama loads fs = Inr rep" for rep
  proof -
    have f: "files rep = batch_results ollama loads 0 fs"
      using report_of_batch(1) [OF r] all by simp
    then have l: "length (files rep) = length (filter (\<lambda>f. content f \<noteq> []) fs)"
      by (simp add: length_batch_results)
    have t: "total_files (summary rep) = length (filter (\<lambda>f. content f \<noteq> []) fs)"
      using report_of_batch(2) [OF r] l by simp
    have "(\<forall>f \<in> set fs. content f \<noteq> []) \<longrightarrow> length (files rep) = length fs"
      using l by simp
    with f l t show ?thesis by simp
  qed
  show ?thesis using iff each by blast
qed

theorem empty_file_record_counterexample:
  "read_files (local_file_paths default_config project_with_empty_file) =
     [\<lparr> path = ''__init__.py'', content = [], meta = [(''size'', 0)] \<rparr>,
      \<lparr> path = ''a.py'', content = ''x = 1'', meta = [(''size'', 5)] \<rparr>]
   \<and> analyze_local_project default_config (Some project_with_empty_file) True (\<lambda>n p. None) json_loads =
       Inr (Some \<lparr> summary = \<lparr> total_files = 1, average_score = 0, total_issues = 0 \<rparr>,
           files = [[(''overall_score'', JNum 0), (''issues'', JArr []),
               (''improvements'', JArr [JStr ''analysis failed'']),
               (''positive_points'', JArr []),
               (''error'', JStr ''LLM analysis failed''), (''file_path'', JStr ''a.py'')]] \<rparr>)"
  by code_simp

theorem results_match_records_with_content_witness:
  "int (length two_files) \<le> MAX_FILES_PER_ANALYSIS default_config
   \<and> length (files
       \<lparr> summary = \<lparr> total_files = 2, average_score = 0, total_issues = 0 \<rparr>,
           files = [[(''overall_score'', JNum 0), (''issues'', JArr []),
               (''improvements'', JArr [JStr ''analysis failed'']),
               (''positive_points'', JArr []),
               (''error'', JStr ''LLM analysis failed''), (''file_path'', JStr ''a.py'')],
              [(''overall_score'', JNum 0), (''issues'', JArr []),
               (''improvements'', JArr [JStr ''analysis failed'']),
               (''positive_points'', JArr []),
               (''error'', JStr ''LLM analysis failed''), (''file_path'', JStr ''b.py'')]] \<rparr>)
     = length two_files"
proof -
  have h: "int (length two_files) \<le> MAX_FILES_PER_ANALYSIS default_config"
    by (simp add: two_files_def default_config_def)
  have c: "\<forall>f \<in> set two_files. content f \<noteq> []"
    by (simp add: two_files_def)
  show ?thesis
    using results_match_records_with_content [OF h, of "\<lambda>n p. None" json_loads]
      two_files_failed_report h c
    by blast
qed



subsection \<open>Collecting the files\<close>

lemma repository_valid_files_eq:
  "repository_valid_files cfg max_files all_files =
     slice_to (file_cap cfg max_files) (sort_key rf_size (size_ok cfg all_files))"
  by (simp add: repository_valid_files_def file_cap_def size_ok_def Let_def split: option.splits)

lemma slice_to_is_take: "slice_to b xs = take (slice_bound (length xs) b) xs"
  by (simp add: slice_to_def)

lemma sorted_slice_to: "sorted (map f xs) \<Longrightarrow> sorted (map f (slice_to b xs))"
  by (simp add: slice_to_def take_map [symmetric] sorted_wrt_take)

lemma slice_to_rest: "slice_to b xs @ drop (slice_bound (length xs) b) xs = xs"
  by (simp add: slice_to_def)

lemma length_slice_to: "0 \<le> b \<Longrightarrow> length (slice_to b xs) = min (nat b) (length xs)"
  by (simp add: slice_to_def slice_bound_def)

lemma sorted_prefix_le:
  assumes "sorted (map f (xs @ ys))" "k \<in> set xs" "d \<in> set ys"
  shows "f k \<le> f d"
  using assms by (auto simp: sorted_append)

lemma kept_are_smallest:
  "\<exists>dropped. mset (size_ok cfg all_files)
        = mset (repository_valid_files cfg max_files all_files) + mset dropped
     \<and> (\<forall>k \<in> set (repository_valid_files cfg max_files all_files).
          \<forall>d \<in> set dropped. rf_size k \<le> rf_size d)"
proof -
  let ?s = "sort_key rf_size (size_ok cfg all_files)"
  let ?kept = "repository_valid_files cfg max_files all_files"
  let ?dropped = "drop (slice_bound (length ?s) (file_cap cfg max_files)) ?s"
  have split: "?kept @ ?dropped = ?s"
    unfolding repository_valid_files_eq by (rule slice_to_rest)
  have "mset (?kept @ ?dropped) = mset (size_ok cfg all_files)"
    unfolding split by simp
  then have m: "mset (size_ok cfg all_files) = mset ?kept + mset ?dropped"
    by simp
  have "sorted (map rf_size (?kept @ ?dropped))"
    unfolding split by simp
  then have "\<forall>k \<in> set ?kept. \<forall>d \<in> set ?dropped. rf_size k \<le> rf_size d"
    using sorted_prefix_le [of rf_size ?kept ?dropped] by blast
  with m show ?thesis by blast
qed

lemma five_files_kept:
  "map rf_size (repository_valid_files default_config (Some 3) five_files) = [10, 20, 30]"
  by code_simp

text \<open>
  The other two modes keep the order in which the files are met: the pull-request mode
  that of the changed-file list, the local mode that of the walk, which it cuts.
\<close>

lemma pr_files_with_content_paths:
  "map path (pr_files_with_content cfg gfc es) = map filename (filter (pr_kept cfg gfc) es)"
  by (induction es) (auto simp: pr_kept_def split: option.splits)

lemma local_prefix: "\<exists>rest. walk cfg [] project = local_file_paths cfg project @ rest"
  using slice_to_rest [of "MAX_FILES_PER_ANALYSIS cfg" "walk cfg [] project"]
  unfolding local_file_paths_def by metis

text \<open>
  C1 (as amended). In the repository mode the files within the size limit are sorted
  ascending by size and then cut to \<open>MAX_FILES_PER_ANALYSIS\<close>, or to \<open>max_files\<close> when
  that is given and not 0: the files kept are in ascending size order, together with
  the files dropped they are the files within the size limit, and no file kept is larger
  than a file dropped; sizes 50, 10, 30, 90, 20 with cap 3 give 10, 20, 30.
\<close>

theorem repository_keeps_smallest_first:
  "sorted (map rf_size (repository_valid_files cfg max_files all_files))
   \<and> (\<exists>dropped. mset (size_ok cfg all_files)
          = mset (repository_valid_files cfg max_files all_files) + mset dropped
        \<and> (\<forall>k \<in> set (repository_valid_files cfg max_files all_files).
             \<forall>d \<in> set dropped. rf_size k \<le> rf_size d))
   \<and> (0 \<le> file_cap cfg max_files \<longrightarrow>
        length (repository_valid_files cfg max_files all_files)
          = min (nat (file_cap cfg max_files)) (length (size_ok cfg all_files)))
   \<and> map rf_size (repository_valid_files default_config (Some 3) five_files) = [10, 20, 30]"
proof -
  have "sorted (map rf_size (repository_valid_files cfg max_files all_files))"
    unfolding repository_valid_files_eq by (rule sorted_slice_to) simp
  moreover have "0 \<le> file_cap cfg max_files \<longrightarrow>
        length (repository_valid_files cfg max_files all_files)
          = min (nat (file_cap cfg max_files)) (length (size_ok cfg all_files))"
    unfolding repository_valid_files_eq by (simp add: length_slice_to)
  ultimately show ?thesis
    using kept_are_smallest five_files_kept by blast
qed

theorem local_walk_order_counterexample:
  "map (\<lambda>(p, f). fsize f)
     (local_file_paths (default_config \<lparr> MAX_FILES_PER_ANALYSIS := 3 \<rparr>) five_local_files)
     = [50, 10, 30]
   \<and> [50, 10, 30] \<noteq> [10, 20, (30::int)]"
  by code_simp


lemma recursive_get_files_supported:
  "\<forall>f \<in> set (recursive_get_files cfg listing). supported cfg (rf_name f)"
  "\<forall>f \<in> set (visit_item cfg it). supported cfg (rf_name f)"
  by (induction cfg listing and cfg it rule: recursive_get_files_visit_item.induct) auto

lemma repository_valid_files_subset:
  "set (repository_valid_files cfg max_files all_files)
     \<subseteq> {f \<in> set all_files. rf_size f \<le> MAX_FILE_SIZE cfg}"
  unfolding repository_valid_files_eq size_ok_def
  using set_slice_to [of "file_cap cfg max_files"
      "sort_key rf_size (filter (\<lambda>f. rf_size f \<le> MAX_FILE_SIZE cfg) all_files)"]
  by auto

lemma remote_files_pass:
  "\<forall>f \<in> set (repository_valid_files cfg max_files (get_all_files cfg listing)).
     supported cfg (rf_name f) \<and> rf_size f \<le> MAX_FILE_SIZE cfg"
  using repository_valid_files_subset [of cfg max_files "get_all_files cfg listing"]
    recursive_get_files_supported(1) [of cfg listing]
  by (auto simp: get_all_files_def)

lemma download_from:
  "\<forall>r \<in> set (download gfc fs). \<exists>f \<in> set fs. path r = rf_path f \<and> meta r = [(''size'', rf_size f)]"
  by (induction fs) (auto split: option.splits)

lemma walk_pass:
  "\<forall>(p, f) \<in> set (walk cfg b d).
     supported cfg (fname f) \<and> fsize f \<le> MAX_FILE_SIZE cfg \<and> (\<exists>b'. p = join_path b' (fname f))"
  by (induction cfg b d rule: walk.induct) fastforce

lemma local_files_pass:
  "\<forall>(p, f) \<in> set (local_file_paths cfg project).
     supported cfg (fname f) \<and> fsize f \<le> MAX_FILE_SIZE cfg \<and> (\<exists>b'. p = join_path b' (fname f))"
  using walk_pass [of cfg "[]" project] set_slice_to [of "MAX_FILES_PER_ANALYSIS cfg" "walk cfg [] project"]
  unfolding local_file_paths_def by blast

lemma read_files_from:
  "\<forall>r \<in> set (read_files ps). \<exists>(p, f) \<in> set ps. path r = p \<and> meta r = [(''size'', fsize f)]"
  by (induction ps rule: read_files.induct) (auto split: option.splits)

lemma pr_files_pass:
  "\<forall>r \<in> set (pr_files_with_content cfg gfc es).
     supported cfg (path r) \<and> (\<exists>e \<in> set es. filename e = path r \<and> status e \<noteq> ''removed'')"
  by (induction es) (auto split: option.splits)

text \<open>
  C6 (as amended). In the repository mode and in the local mode every file passed on has
  a name that ends with an extension of the allow-list and a size of at most
  \<open>MAX_FILE_SIZE\<close>. In the pull-request mode every record passed on has a file name
  that ends with an extension of the allow-list and comes from an entry whose status is
  not "removed". The records handed to the analyser in the first two modes carry the
  paths and sizes of those files.
\<close>

theorem files_passed_on_satisfy_filters:
  "(\<forall>f \<in> set (repository_valid_files cfg max_files (get_all_files cfg listing)).
      supported cfg (rf_name f) \<and> rf_size f \<le> MAX_FILE_SIZE cfg)
   \<and> (\<forall>(p, f) \<in> set (local_file_paths cfg project).
      supported cfg (fname f) \<and> fsize f \<le> MAX_FILE_SIZE cfg \<and> (\<exists>b. p = join_path b (fname f)))
   \<and> (\<forall>r \<in> set (pr_files_with_content cfg get_file_content es).
      supported cfg (path r) \<and> (\<exists>e \<in> set es. filename e = path r \<and> status e \<noteq> ''removed''))
   \<and> (\<forall>r \<in> set (download get_file_content valid_files).
      \<exists>f \<in> set valid_files. path r = rf_path f \<and> meta r = [(''size'', rf_size f)])
   \<and> (\<forall>r \<in> set (read_files paths).
      \<exists>(p, f) \<in> set paths. path r = p \<and> meta r = [(''size'', fsize f)])"
  using remote_files_pass [of cfg max_files listing] local_files_pass [of cfg project]
    pr_files_pass [of cfg get_file_content es] download_from [of get_file_content valid_files]
    read_files_from [of paths]
  by blast

theorem pull_request_size_counterexample:
  "pr_files_with_content default_config (\<lambda>p. Some big_text) one_changed_file =
     [\<lparr> path = ''big.py'', content = big_text,
        meta = [(''changes'', 1), (''additions'', 1), (''deletions'', 0)] \<rparr>]
   \<and> MAX_FILE_SIZE default_config < int (length big_text)"
proof -
  have "big_text \<noteq> []" by (simp add: big_text_def)
  moreover have "supported default_config ''big.py''"
    by (simp add: supported_def default_config_def endswith_def)
  moreover have "MAX_FILE_SIZE default_config < int (length big_text)"
    by (simp add: big_text_def default_config_def)
  ultimately show ?thesis by (simp add: one_changed_file_def)
qed


lemma file_cap_three: "file_cap default_config (Some 3) = 3"
  by (simp add: file_cap_def)

lemma five_files_size_ok: "length (size_ok default_config five_files) = 5"
  by (simp add: size_ok_def five_files_def default_config_def)

theorem repository_keeps_smallest_first_witness:
  "0 \<le> file_cap default_config (Some 3)
   \<and> length (repository_valid_files default_config (Some 3) five_files) = 3
   \<and> sorted (map rf_size (repository_valid_files default_config (Some 3) five_files))
   \<and> (\<exists>dropped. mset (size_ok default_config five_files)
          = mset (repository_valid_files default_config (Some 3) five_files) + mset dropped
        \<and> length dropped = 2)"
proof -
  let ?kept = "repository_valid_files default_config (Some 3) five_files"
  have h: "0 \<le> file_cap default_config (Some 3)"
    by (simp add: file_cap_three)
  note t = repository_keeps_smallest_first
      [where cfg = default_config and max_files = "Some 3" and all_files = five_files]
  have "length ?kept
          = min (nat (file_cap default_config (Some 3))) (length (size_ok default_config five_files))"
    using t h by blast
  then have l: "length ?kept = 3"
    by (simp add: file_cap_three five_files_size_ok)
  have s: "sorted (map rf_size ?kept)"
    using t by blast
  from t obtain dropped where
    d: "mset (size_ok default_config five_files) = mset ?kept + mset dropped"
    by blast
  then have "size (mset (size_ok default_config five_files)) = size (mset ?kept + mset dropped)"
    by simp
  then have "length dropped = 2"
    using l by (simp add: five_files_size_ok)
  with d have "\<exists>dropped. mset (size_ok default_config five_files) = mset ?kept + mset dropped
        \<and> length dropped = 2"
    by blast
  with h l s show ?thesis by simp
qed

lemma example_listing_kept:
  "repository_valid_files default_config None (get_all_files default_config example_listing) =
     [\<lparr> rf_name = ''a.py'', rf_path = ''a.py'', rf_size = 10, rf_download_url = [] \<rparr>]"
  by code_simp

lemma example_pr_kept:
  "pr_files_with_content default_config (\<lambda>p. Some ''x = 1'') example_pr_files =
     [\<lparr> path = ''new.py'', content = ''x = 1'',
        meta = [(''changes'', 2), (''additions'', 2), (''deletions'', 0)] \<rparr>]"
  by code_simp

lemma five_local_files_kept:
  "local_file_paths default_config five_local_files =
     [(''a.py'', \<lparr> fname = ''a.py'', fsize = 50, ftext = Some ''a'' \<rparr>),
      (''b.py'', \<lparr> fname = ''b.py'', fsize = 10, ftext = Some ''b'' \<rparr>),
      (''c.py'', \<lparr> fname = ''c.py'', fsize = 30, ftext = Some ''c'' \<rparr>),
      (''d.py'', \<lparr> fname = ''d.py'', fsize = 90, ftext = Some ''d'' \<rparr>),
      (''e.py'', \<lparr> fname = ''e.py'', fsize = 20, ftext = Some ''e'' \<rparr>)]"
  by code_simp

theorem files_passed_on_satisfy_filters_witness:
  "repository_valid_files default_config None (get_all_files default_config example_listing) =
     [\<lparr> rf_name = ''a.py'', rf_path = ''a.py'', rf_size = 10, rf_download_url = [] \<rparr>]
   \<and> supported default_config ''a.py'' \<and> 10 \<le> MAX_FILE_SIZE default_config
   \<and> pr_files_with_content default_config (\<lambda>p. Some ''x = 1'') example_pr_files =
     [\<lparr> path = ''new.py'', content = ''x = 1'',
        meta = [(''changes'', 2), (''additions'', 2), (''deletions'', 0)] \<rparr>]
   \<and> supported default_config ''new.py''
   \<and> (''d.py'', \<lparr> fname = ''d.py'', fsize = 90, ftext = Some ''d'' \<rparr>)
        \<in> set (local_file_paths default_config five_local_files)
   \<and> supported default_config ''d.py'' \<and> 90 \<le> MAX_FILE_SIZE default_config"
proof -
  note t = files_passed_on_satisfy_filters
      [where cfg = default_config and max_files = None and listing = example_listing
         and get_file_content = "\<lambda>p. Some ''x = 1''" and es = example_pr_files
         and project = five_local_files]
  let ?a = "\<lparr> rf_name = ''a.py'', rf_path = ''a.py'', rf_size = 10, rf_download_url = [] \<rparr>"
  have "?a \<in> set (repository_valid_files default_config None
                    (get_all_files default_config example_listing))"
    by (simp add: example_listing_kept)
  with t have "supported default_config (rf_name ?a) \<and> rf_size ?a \<le> MAX_FILE_SIZE default_config"
    by blast
  then have a: "supported default_config ''a.py'' \<and> 10 \<le> MAX_FILE_SIZE default_config"
    by simp
  let ?n = "\<lparr> path = ''new.py'', content = ''x = 1'',
        meta = [(''changes'', 2), (''additions'', 2), (''deletions'', 0)] \<rparr>"
  have "?n \<in> set (pr_files_with_content default_config (\<lambda>p. Some ''x = 1'') example_pr_files)"
    by (simp add: example_pr_kept)
  with t have "supported default_config (path ?n)"
    by blast
  then have n: "supported default_config ''new.py''"
    by simp
  let ?d = "\<lparr> fname = ''d.py'', fsize = 90, ftext = Some ''d'' \<rparr>"
  have m: "(''d.py'', ?d) \<in> set (local_file_paths default_config five_local_files)"
    by (simp add: five_local_files_kept)
  with t have "supported default_config (fname ?d) \<and> fsize ?d \<le> MAX_FILE_SIZE default_config"
    by blast
  then have d: "supported default_config ''d.py'' \<and> 90 \<le> MAX_FILE_SIZE default_config"
    by simp
  show ?thesis using a n d m example_listing_kept example_pr_kept by simp
qed

end
